theory Spec2Isabelle
  imports Main
begin

section \<open>JavaScript values and objects\<close>

text \<open>
  The mock is JavaScript. Its objects are read with computed keys
  (\<^verbatim>\<open>this.channels[name]\<close>, \<^verbatim>\<open>target[key]\<close>), so an object is a
  property table with a prototype link, kept in a heap addressed by natural numbers.
  An address is the identity of an object: \<^verbatim>\<open>===\<close> on two objects is equality
  of their addresses.
\<close>

datatype val = Undefined | Null | Bool bool | Num int | Str string | Ref nat

text \<open>
  A property is a writable data property (its value and whether it is enumerable), a data
  property that is neither writable nor enumerable (the realm's functions have such:
  \<^verbatim>\<open>prototype\<close>, \<^verbatim>\<open>name\<close>, \<^verbatim>\<open>length\<close>), or the one accessor the realm of
  the program holds, \<^verbatim>\<open>Object.prototype.__proto__\<close>, whose getter returns the
  prototype of the object it is read on and whose setter re-links it. Every object is
  extensible, as all that the source creates are.
\<close>

datatype property = Data val bool | ReadOnly val | ProtoAccessor

record obj =
  proto :: "nat option"
  props :: "string \<rightharpoonup> property"

type_synonym heap = "obj list"

datatype error = TypeError | Unsupported

definition Object_prototype :: nat where
  "Object_prototype = 0"

definition MockChannel_prototype :: nat where
  "MockChannel_prototype = 3"

text \<open>
  \<^verbatim>\<open>o[k]\<close> walks the prototype chain of \<open>o\<close> and stops at the first object
  that has an own property \<open>k\<close>. An object is created after its prototype and the
  source never re-links one, so a prototype has a smaller address than the object;
  the walk follows a link only downwards.
\<close>

function find_prop :: "heap \<Rightarrow> nat \<Rightarrow> string \<Rightarrow> property option" where
  "find_prop h a k =
     (if a < length h then
        (case props (h ! a) k of
           Some p \<Rightarrow> Some p
         | None \<Rightarrow>
            (case proto (h ! a) of
               Some b \<Rightarrow> if b < a then find_prop h b k else None
             | None \<Rightarrow> None))
      else None)"
  by pat_completeness auto
termination
  by (relation "measure (\<lambda>(h, a, k). a)") auto

declare find_prop.simps [simp del]

definition get_prop :: "heap \<Rightarrow> nat \<Rightarrow> string \<Rightarrow> val" where
  "get_prop h a k =
     (case find_prop h a k of
        None \<Rightarrow> Undefined
      | Some (Data v e) \<Rightarrow> v
      | Some (ReadOnly v) \<Rightarrow> v
      | Some ProtoAccessor \<Rightarrow>
          (if a < length h then
             (case proto (h ! a) of None \<Rightarrow> Null | Some p \<Rightarrow> Ref p)
           else Undefined))"

text \<open>The test of \<^verbatim>\<open>if (!x)\<close>: ToBoolean.\<close>

fun truthy :: "val \<Rightarrow> bool" where
  "truthy Undefined = False"
| "truthy Null = False"
| "truthy (Bool b) = b"
| "truthy (Num n) = (n \<noteq> 0)"
| "truthy (Str s) = (s \<noteq> [])"
| "truthy (Ref a) = True"

text \<open>
  The setter of \<^verbatim>\<open>__proto__\<close>, called on the object \<open>a\<close> with the value \<open>v\<close>. A
  value that is neither an object nor \<^verbatim>\<open>null\<close> is ignored. The prototype that the
  object has already is accepted; Object.prototype takes no other, and no object takes
  itself (a TypeError). Otherwise the object is re-linked. The objects of this theory have
  their prototypes below them, so a link to an object that was created later is not
  followed: the result is \<open>Unsupported\<close>.
\<close>

definition set_proto :: "heap \<Rightarrow> nat \<Rightarrow> val \<Rightarrow> error + heap" where
  "set_proto h a v =
     (case v of
        Ref b \<Rightarrow>
          (if proto (h ! a) = Some b then Inr h
           else if a = Object_prototype \<or> b = a then Inl TypeError
           else if b < a then Inr (h[a := (h ! a)\<lparr>proto := Some b\<rparr>])
           else Inl Unsupported)
      | Null \<Rightarrow>
          (if proto (h ! a) = None then Inr h
           else if a = Object_prototype then Inl TypeError
           else Inr (h[a := (h ! a)\<lparr>proto := None\<rparr>]))
      | _ \<Rightarrow> Inr h)"

text \<open>
  \<^verbatim>\<open>o[k] = v\<close> on an ordinary object, in strict code (the modules and the tests are
  modules). The first property \<open>k\<close> along the prototype chain decides: the accessor
  runs its setter on \<open>o\<close>; a property that is not writable, own or inherited, makes
  the assignment throw a TypeError; an own data property keeps its attributes and takes the
  value; a property that is inherited or missing is created on \<open>o\<close> itself, enumerable.
\<close>

definition put_own :: "obj \<Rightarrow> string \<Rightarrow> val \<Rightarrow> obj" where
  "put_own ob k v =
     ob\<lparr>props := (props ob)
            (k \<mapsto> Data v (case props ob k of Some (Data w e) \<Rightarrow> e | _ \<Rightarrow> True))\<rparr>"

definition set_prop :: "heap \<Rightarrow> nat \<Rightarrow> string \<Rightarrow> val \<Rightarrow> error + heap" where
  "set_prop h a k v =
     (case find_prop h a k of
        Some ProtoAccessor \<Rightarrow> set_proto h a v
      | Some (ReadOnly w) \<Rightarrow> Inl TypeError
      | _ \<Rightarrow> if a < length h then Inr (h[a := put_own (h ! a) k v]) else Inr h)"

text \<open>
  Whether \<^verbatim>\<open>o[k] = v\<close> stores the value: \<open>k\<close> resolves neither to the accessor nor
  to a property that is not writable.
\<close>

definition assignable :: "heap \<Rightarrow> nat \<Rightarrow> string \<Rightarrow> bool" where
  "assignable h a k =
     (case find_prop h a k of
        Some ProtoAccessor \<Rightarrow> False
      | Some (ReadOnly w) \<Rightarrow> False
      | _ \<Rightarrow> True)"

text \<open>The object literal \<^verbatim>\<open>{}\<close>: a new object whose prototype is Object.prototype.\<close>

definition new_object :: "heap \<Rightarrow> nat \<times> heap" where
  "new_object h = (length h, h @ [\<lparr>proto = Some Object_prototype, props = Map.empty\<rparr>])"

section \<open>The channel and the registry\<close>

text \<open>
  Modelled from the spec: the class \<^verbatim>\<open>MockChannel\<close> of mock-channel.js, which
  mock-instance.js imports and which is not among the source files. The spec says the
  registry "constructs a new Channel with empty membership"; README.md prints the class as
  \<^verbatim>\<open>constructor(name) { this.name = name; this.members = {}; }\<close>.
\<close>

definition new_MockChannel :: "heap \<Rightarrow> string \<Rightarrow> error + (val \<times> heap)" where
  "new_MockChannel h name =
     (let a = length h;
          h0 = h @ [\<lparr>proto = Some MockChannel_prototype, props = Map.empty\<rparr>]
      in case set_prop h0 a ''name'' (Str name) of
           Inl e \<Rightarrow> Inl e
         | Inr h1 \<Rightarrow>
            (let (m, h2) = new_object h1
             in case set_prop h2 a ''members'' (Ref m) of
                  Inl e \<Rightarrow> Inl e
                | Inr h3 \<Rightarrow> Inr (Ref a, h3)))"

text \<open>
  mock-instance.js: \<^verbatim>\<open>class MockInstance { constructor() { this.channels = {}; } ... }\<close>.
  The field holds the address of the object literal; the source never assigns it again.
\<close>

record MockInstance =
  channels :: nat

definition new_MockInstance :: "heap \<Rightarrow> MockInstance \<times> heap" where
  "new_MockInstance h = (let (c, h1) = new_object h in (\<lparr>channels = c\<rparr>, h1))"

text \<open>
  src/mock-instance.js, \<^verbatim>\<open>channel(name)\<close>:
  \<^verbatim>\<open>if (!this.channels[name]) { this.channels[name] = new MockChannel(name); }
  return this.channels[name];\<close>
\<close>

definition channel :: "MockInstance \<Rightarrow> heap \<Rightarrow> string \<Rightarrow> error + (val \<times> heap)" where
  "channel this h name =
     (if \<not> truthy (get_prop h (channels this) name) then
        (case new_MockChannel h name of
           Inl e \<Rightarrow> Inl e
         | Inr (ch, h1) \<Rightarrow>
            (case set_prop h1 (channels this) name ch of
               Inl e \<Rightarrow> Inl e
             | Inr h2 \<Rightarrow> Inr (get_prop h2 (channels this) name, h2)))
      else Inr (get_prop h (channels this) name, h))"

section \<open>The clients\<close>

text \<open>
  A client is read and written through fixed fields only (\<^verbatim>\<open>this.config\<close>,
  \<^verbatim>\<open>this.id\<close>, \<^verbatim>\<open>client.id\<close>), so it is a record; a client that has no
  \<^verbatim>\<open>id\<close> yet reads \<^verbatim>\<open>undefined\<close> there. The authorizer is the caller's
  code: what the mock sees of it is with which values it calls the callback it is handed
  before it returns (\<open>sync\<close>), with which values it calls it later, once
  \<^verbatim>\<open>subscribe\<close> has returned (\<open>deferred\<close>), and the value its call returns
  (\<open>returned\<close>).
\<close>

datatype authorizer =
  Authorizer (sync: "val list") (deferred: "val list") (returned: val)

record MockClient =
  config :: authorizer
  id' :: val

definition client_id :: "MockClient list \<Rightarrow> nat \<Rightarrow> val" where
  "client_id cs c = (if c < length cs then id' (cs ! c) else Undefined)"

section \<open>The proxies\<close>

text \<open>
  Two files define \<^verbatim>\<open>proxyMockChannel\<close>. Each builds
  \<^verbatim>\<open>new Proxy(channel, handler)\<close> with a handler that has a \<^verbatim>\<open>get\<close> trap and
  nothing else, and that closes over \<^verbatim>\<open>client\<close>. \<^verbatim>\<open>new Proxy\<close> returns a new
  object at every call, and throws a TypeError when the target is not an object. No object
  of the heap refers to a proxy (the source hands it to the caller and keeps none), so
  the proxies are numbered apart from the heap: a proxy is its number, which is its
  identity, its target and its handler, and \<^verbatim>\<open>new Proxy\<close> takes the number of proxies
  made so far and returns the next.
\<close>

datatype handler = Handler_myID nat | Handler_members nat

record proxy =
  ident :: nat
  target :: nat
  handler :: handler

definition new_Proxy :: "val \<Rightarrow> handler \<Rightarrow> nat \<Rightarrow> error + (proxy \<times> nat)" where
  "new_Proxy v hdl made =
     (case v of
        Ref a \<Rightarrow> Inr (\<lparr>ident = made, target = a, handler = hdl\<rparr>, Suc made)
      | _ \<Rightarrow> Inl TypeError)"

text \<open>
  The first \<^verbatim>\<open>proxyMockChannel\<close> (src/unnamed/part_001, lines 1 to 11; the default
  export, which the registry of the two-argument \<^verbatim>\<open>channel\<close> imports):
  \<^verbatim>\<open>if (key === "myID") return client.id; return target[key];\<close>
\<close>

definition proxyMockChannel_myID :: "val \<Rightarrow> nat \<Rightarrow> nat \<Rightarrow> error + (proxy \<times> nat)" where
  "proxyMockChannel_myID ch client made = new_Proxy ch (Handler_myID client) made"

text \<open>
  The second \<^verbatim>\<open>proxyMockChannel\<close> (src/unnamed/part_001, lines 12 to 27; the one
  README.md ends with):
  \<^verbatim>\<open>case "members": return { ...target.members, myID: client.id };
  default: return target[key];\<close>
\<close>

definition proxyMockChannel :: "val \<Rightarrow> nat \<Rightarrow> nat \<Rightarrow> error + (proxy \<times> nat)" where
  "proxyMockChannel ch client made = new_Proxy ch (Handler_members client) made"

text \<open>
  The own enumerable data properties of an object, as a mapping: what the spread
  \<^verbatim>\<open>...x\<close> copies.
\<close>

definition own_entries :: "heap \<Rightarrow> nat \<Rightarrow> (string \<rightharpoonup> val)" where
  "own_entries h a =
     (if a < length h then
        (\<lambda>k. case props (h ! a) k of Some (Data v True) \<Rightarrow> Some v | _ \<Rightarrow> None)
      else Map.empty)"

function decimal :: "nat \<Rightarrow> string" where
  "decimal n =
     (if n < 10 then [char_of (48 + n)] else decimal (n div 10) @ [char_of (48 + n mod 10)])"
  by pat_completeness auto
termination
  by (relation "measure (\<lambda>n. n)") auto

declare decimal.simps [simp del]

text \<open>
  \<^verbatim>\<open>{ ...x }\<close>: an object gives its own enumerable properties, a string its
  characters under their indices, every other value nothing.
\<close>

definition spread :: "heap \<Rightarrow> val \<Rightarrow> (string \<rightharpoonup> val)" where
  "spread h x =
     (case x of
        Ref a \<Rightarrow> own_entries h a
      | Str s \<Rightarrow> map_of (map (\<lambda>i. (decimal i, Str [s ! i])) [0..<length s])
      | _ \<Rightarrow> Map.empty)"

text \<open>
  Reading \<^verbatim>\<open>view[key]\<close> runs the \<^verbatim>\<open>get\<close> trap of the handler. The object
  literal of the second handler allocates.
\<close>

definition proxy_get :: "heap \<Rightarrow> MockClient list \<Rightarrow> proxy \<Rightarrow> string \<Rightarrow> val \<times> heap" where
  "proxy_get h cs p key =
     (case handler p of
        Handler_myID client \<Rightarrow>
          (if key = ''myID'' then (client_id cs client, h)
           else (get_prop h (target p) key, h))
      | Handler_members client \<Rightarrow>
          (if key = ''members'' then
             (Ref (length h),
              h @ [\<lparr>proto = Some Object_prototype,
                     props = (\<lambda>k. map_option (\<lambda>v. Data v True)
                                 (spread h (get_prop h (target p) ''members'') k))
                             (''myID'' \<mapsto> Data (client_id cs client) True)\<rparr>])
           else (get_prop h (target p) key, h)))"

text \<open>
  Neither handler has a \<^verbatim>\<open>set\<close> trap, so \<^verbatim>\<open>view[key] = v\<close> is the
  assignment on the target.
\<close>

definition proxy_set :: "heap \<Rightarrow> proxy \<Rightarrow> string \<Rightarrow> val \<Rightarrow> error + heap" where
  "proxy_set h p key v = set_prop h (target p) key v"

section \<open>What callers do between two lookups\<close>

text \<open>
  A caller looks a name up in the registry, reads a property of a view, or assigns one
  through a view. \<open>run\<close> does such actions one after the other and stops at the first
  that throws.
\<close>

datatype action = Lookup string | Read proxy string | Assign proxy string val

fun run :: "MockInstance \<Rightarrow> MockClient list \<Rightarrow> action list \<Rightarrow> heap \<Rightarrow> error + heap" where
  "run this cs [] h = Inr h"
| "run this cs (Lookup n # acts) h =
     (case channel this h n of Inl e \<Rightarrow> Inl e | Inr (v, h1) \<Rightarrow> run this cs acts h1)"
| "run this cs (Read p key # acts) h = run this cs acts (snd (proxy_get h cs p key))"
| "run this cs (Assign p key v # acts) h =
     (case proxy_set h p key v of Inl e \<Rightarrow> Inl e | Inr h1 \<Rightarrow> run this cs acts h1)"

text \<open>
  Every assignment among the actions is through a view whose target was created after the
  object \<open>c\<close>; every channel is created after the registry's \<^verbatim>\<open>channels\<close>.
\<close>

definition assigns_above :: "nat \<Rightarrow> action list \<Rightarrow> bool" where
  "assigns_above c acts =
     list_all (\<lambda>a. case a of Assign p key v \<Rightarrow> c < target p | _ \<Rightarrow> True) acts"

section \<open>Subscribing\<close>

text \<open>
  The state of a run: the heap, the registry that mock-instance.js exports as
  \<^verbatim>\<open>MockPusherInstance\<close>, the clients, the callbacks that authorizers hold to call
  later, each with the client it is bound to and the value it will be called with, and the
  number of proxies made so far.
\<close>

record state =
  heap :: heap
  MockPusherInstance :: MockInstance
  clients :: "MockClient list"
  pending :: "(nat \<times> val) list"
  proxies_made :: nat

text \<open>\<^verbatim>\<open>setID(id) { this.id = id; }\<close>, bound to the client in the constructor.\<close>

definition setID :: "MockClient \<Rightarrow> val \<Rightarrow> MockClient" where
  "setID this v = this\<lparr>id' := v\<rparr>"

text \<open>
  \<^verbatim>\<open>this.config.authorizer().authorize(this.setID)\<close>: the authorizer calls
  \<^verbatim>\<open>setID\<close> with its synchronous values, in order, and keeps it for the deferred ones.
\<close>

definition authorize :: "nat \<Rightarrow> state \<Rightarrow> state" where
  "authorize c s =
     s\<lparr>clients := foldl (\<lambda>cs v. cs[c := setID (cs ! c) v]) (clients s)
                      (sync (config (clients s ! c))),
       pending := pending s @ map (Pair c) (deferred (config (clients s ! c)))\<rparr>"

text \<open>
  The \<^verbatim>\<open>subscribe\<close> of the client that README.md ends with
  (src/unnamed/part_002):
  \<^verbatim>\<open>this.config.authorizer().authorize(this.setID);
  return proxyMockChannel(MockPusherInstance.channel(name), this);\<close>
  A method is called on an object: a client that does not exist has no
  \<^verbatim>\<open>subscribe\<close>.
\<close>

definition subscribe :: "nat \<Rightarrow> string \<Rightarrow> state \<Rightarrow> error + (proxy \<times> state)" where
  "subscribe c name s =
     (if c < length (clients s) then
        (let s1 = authorize c s
         in case channel (MockPusherInstance s1) (heap s1) name of
              Inl e \<Rightarrow> Inl e
            | Inr (ch, h1) \<Rightarrow>
               (case proxyMockChannel ch c (proxies_made s1) of
                  Inl e \<Rightarrow> Inl e
                | Inr (p, made) \<Rightarrow> Inr (p, s1\<lparr>heap := h1, proxies_made := made\<rparr>)))
      else Inl TypeError)"

text \<open>One turn of the event loop: the oldest pending callback runs.\<close>

definition run_pending :: "state \<Rightarrow> state" where
  "run_pending s =
     (case pending s of
        [] \<Rightarrow> s
      | (c, v) # rest \<Rightarrow>
          s\<lparr>clients := (clients s)[c := setID (clients s ! c) v], pending := rest\<rparr>)"

section \<open>The earlier variant\<close>

text \<open>
  The registry whose \<^verbatim>\<open>channel\<close> takes the client and returns the proxy itself
  (src/unnamed/part_000):
  \<^verbatim>\<open>channel = (name, client) => { if (!this.channels[name]) { this.channels[name] =
  new MockChannel(name); } return proxyChannel(this.channels[name], client); }\<close>,
  where \<^verbatim>\<open>proxyChannel\<close> is the default export of proxyMockChannel.js.
\<close>

definition channel_v0 ::
  "MockInstance \<Rightarrow> heap \<Rightarrow> nat \<Rightarrow> string \<Rightarrow> nat \<Rightarrow> error + (proxy \<times> heap \<times> nat)" where
  "channel_v0 this h made name client =
     (if \<not> truthy (get_prop h (channels this) name) then
        (case new_MockChannel h name of
           Inl e \<Rightarrow> Inl e
         | Inr (ch, h1) \<Rightarrow>
            (case set_prop h1 (channels this) name ch of
               Inl e \<Rightarrow> Inl e
             | Inr h2 \<Rightarrow>
                (case proxyMockChannel_myID (get_prop h2 (channels this) name) client made of
                   Inl e \<Rightarrow> Inl e
                 | Inr (p, made1) \<Rightarrow> Inr (p, h2, made1))))
      else
        (case proxyMockChannel_myID (get_prop h (channels this) name) client made of
           Inl e \<Rightarrow> Inl e
         | Inr (p, made1) \<Rightarrow> Inr (p, h, made1)))"

text \<open>
  \<^verbatim>\<open>result.id\<close>: a TypeError on \<^verbatim>\<open>undefined\<close> and \<^verbatim>\<open>null\<close>. A number, a
  string or a boolean is read through its wrapper prototype; none of the three defines
  \<^verbatim>\<open>id\<close>, and the prototype of each is Object.prototype, so the read is that of
  \<^verbatim>\<open>id\<close> there.
\<close>

definition result_id :: "heap \<Rightarrow> val \<Rightarrow> error + val" where
  "result_id h x =
     (case x of
        Ref a \<Rightarrow> Inr (get_prop h a ''id'')
      | Undefined \<Rightarrow> Inl TypeError
      | Null \<Rightarrow> Inl TypeError
      | _ \<Rightarrow> Inr (get_prop h Object_prototype ''id''))"

text \<open>
  mock-client.js: \<^verbatim>\<open>const callback = result => { this.id = result.id; };\<close>
\<close>

definition callback :: "heap \<Rightarrow> MockClient \<Rightarrow> val \<Rightarrow> error + MockClient" where
  "callback h this result =
     (case result_id h result of
        Inl e \<Rightarrow> Inl e
      | Inr v \<Rightarrow> Inr (this\<lparr>id' := v\<rparr>))"

fun callbacks :: "heap \<Rightarrow> MockClient \<Rightarrow> val list \<Rightarrow> error + MockClient" where
  "callbacks h this [] = Inr this"
| "callbacks h this (r # rs) =
     (case callback h this r of Inl e \<Rightarrow> Inl e | Inr this1 \<Rightarrow> callbacks h this1 rs)"

text \<open>
  src/mock-client.js, \<^verbatim>\<open>subscribe(name)\<close>:
  \<^verbatim>\<open>this.id = this.config.authorizer(callback);
  return MockInstance.channel(name, this);\<close>
  The authorizer runs first, and calls the callback; then the assignment stores what the
  authorizer returned. This variant has no deferred callbacks in its state.
\<close>

definition subscribe_v0 :: "nat \<Rightarrow> string \<Rightarrow> state \<Rightarrow> error + (proxy \<times> state)" where
  "subscribe_v0 c name s =
     (if c < length (clients s) then
        (case callbacks (heap s) (clients s ! c) (sync (config (clients s ! c))) of
           Inl e \<Rightarrow> Inl e
         | Inr this1 \<Rightarrow>
            (let this2 = this1\<lparr>id' := returned (config this1)\<rparr>;
                 cs = (clients s)[c := this2]
             in case channel_v0 (MockPusherInstance s) (heap s) (proxies_made s) name c of
                  Inl e \<Rightarrow> Inl e
                | Inr (p, h1, made) \<Rightarrow>
                    Inr (p, s\<lparr>heap := h1, clients := cs, proxies_made := made\<rparr>)))
      else Inl TypeError)"

text \<open>
  create-client.js: \<^verbatim>\<open>createClient = id => new ActualClient({ authorizer: callback =>
  callback({ id }) })\<close>, with the mock client in the place of the actual one, as
  create-client.test.js sets it up. The authorizer hands the callback the object
  \<^verbatim>\<open>{ id }\<close> and returns what the callback returns, which is \<^verbatim>\<open>undefined\<close>.
  The object is allocated here, once.
\<close>

definition createClient :: "val \<Rightarrow> state \<Rightarrow> nat \<times> state" where
  "createClient v s =
     (let (r, h1) = new_object (heap s);
          h2 = h1[r := put_own (h1 ! r) ''id'' v]
      in (length (clients s),
          s\<lparr>heap := h2,
            clients := clients s @ [\<lparr>config = Authorizer [Ref r] [] Undefined, id' = Undefined\<rparr>]\<rparr>))"

text \<open>
  \<^verbatim>\<open>new MockClient(config)\<close>: the constructor stores the configuration and assigns
  no \<^verbatim>\<open>id\<close>.
\<close>

definition new_MockClient :: "authorizer \<Rightarrow> state \<Rightarrow> nat \<times> state" where
  "new_MockClient cfg s =
     (length (clients s), s\<lparr>clients := clients s @ [\<lparr>config = cfg, id' = Undefined\<rparr>]\<rparr>)"

section \<open>The realm the modules are loaded in\<close>

text \<open>
  The objects of the JavaScript realm that a property read of the program can reach:
  Object.prototype with its twelve properties (the seven of the language and the five of
  its Annex B, as Node has them), Function.prototype, the class \<^verbatim>\<open>MockChannel\<close> and
  its prototype, \<^verbatim>\<open>Object\<close>, and the ten functions of Object.prototype. Of the own
  properties of the functions, \<^verbatim>\<open>prototype\<close>, \<^verbatim>\<open>name\<close> and \<^verbatim>\<open>length\<close>
  are there; the static methods of \<^verbatim>\<open>Object\<close> and the methods of
  Function.prototype are left out.
\<close>

definition builtin_function :: "string \<Rightarrow> int \<Rightarrow> obj" where
  "builtin_function name arity =
     \<lparr>proto = Some 1,
      props = [''length'' \<mapsto> ReadOnly (Num arity), ''name'' \<mapsto> ReadOnly (Str name)]\<rparr>"

definition realm :: heap where
  "realm =
     [\<lparr>proto = None,
       props = [''constructor'' \<mapsto> Data (Ref 4) False,
                ''hasOwnProperty'' \<mapsto> Data (Ref 5) False,
                ''isPrototypeOf'' \<mapsto> Data (Ref 6) False,
                ''propertyIsEnumerable'' \<mapsto> Data (Ref 7) False,
                ''toLocaleString'' \<mapsto> Data (Ref 8) False,
                ''toString'' \<mapsto> Data (Ref 9) False,
                ''valueOf'' \<mapsto> Data (Ref 10) False,
                ''__defineGetter__'' \<mapsto> Data (Ref 11) False,
                ''__defineSetter__'' \<mapsto> Data (Ref 12) False,
                ''__lookupGetter__'' \<mapsto> Data (Ref 13) False,
                ''__lookupSetter__'' \<mapsto> Data (Ref 14) False,
                ''__proto__'' \<mapsto> ProtoAccessor]\<rparr>,
      \<lparr>proto = Some 0,
       props = [''length'' \<mapsto> ReadOnly (Num 0), ''name'' \<mapsto> ReadOnly (Str [])]\<rparr>,
      \<lparr>proto = Some 1,
       props = [''prototype'' \<mapsto> ReadOnly (Ref 3), ''length'' \<mapsto> ReadOnly (Num 1),
                ''name'' \<mapsto> ReadOnly (Str ''MockChannel'')]\<rparr>,
      \<lparr>proto = Some 0, props = [''constructor'' \<mapsto> Data (Ref 2) False]\<rparr>,
      \<lparr>proto = Some 1,
       props = [''prototype'' \<mapsto> ReadOnly (Ref 0), ''length'' \<mapsto> ReadOnly (Num 1),
                ''name'' \<mapsto> ReadOnly (Str ''Object'')]\<rparr>,
      builtin_function ''hasOwnProperty'' 1, builtin_function ''isPrototypeOf'' 1,
      builtin_function ''propertyIsEnumerable'' 1, builtin_function ''toLocaleString'' 0,
      builtin_function ''toString'' 0, builtin_function ''valueOf'' 0,
      builtin_function ''__defineGetter__'' 2, builtin_function ''__defineSetter__'' 2,
      builtin_function ''__lookupGetter__'' 1, builtin_function ''__lookupSetter__'' 1]"

text \<open>
  The state once the modules are loaded:
  \<^verbatim>\<open>export const MockPusherInstance = new MockInstance();\<close>
\<close>

definition loaded :: state where
  "loaded =
     (let (i, h) = new_MockInstance realm
      in \<lparr>heap = h, MockPusherInstance = i, clients = [], pending = [], proxies_made = 0\<rparr>)"

section \<open>The end-to-end scenario\<close>

text \<open>
  The scenario of the spec: a client whose authorizer resolves \<^verbatim>\<open>"alice"\<close> at once
  and a client whose authorizer resolves \<^verbatim>\<open>"bob"\<close> at once both subscribe to
  \<^verbatim>\<open>"room-1"\<close>, and each reads \<^verbatim>\<open>members\<close> on its view. A third client, whose
  authorizer resolves \<^verbatim>\<open>"carol"\<close> only later, is there for the reads before and
  after the resolution.
\<close>

definition three_clients :: state where
  "three_clients =
     snd (new_MockClient (Authorizer [] [Str ''carol''] Undefined)
       (snd (new_MockClient (Authorizer [Str ''bob''] [] Undefined)
         (snd (new_MockClient (Authorizer [Str ''alice''] [] Undefined) loaded)))))"

definition viewA :: proxy where
  "viewA = fst (projr (subscribe 0 ''room-1'' three_clients))"

definition stateA :: state where
  "stateA = snd (projr (subscribe 0 ''room-1'' three_clients))"

definition viewB :: proxy where
  "viewB = fst (projr (subscribe 1 ''room-1'' stateA))"

definition stateB :: state where
  "stateB = snd (projr (subscribe 1 ''room-1'' stateA))"

definition readA :: "val \<times> heap" where
  "readA = proxy_get (heap stateB) (clients stateB) viewA ''members''"

definition readB :: "val \<times> heap" where
  "readB = proxy_get (snd readA) (clients stateB) viewB ''members''"

text \<open>
  Alice changes the mapping she has read (\<^verbatim>\<open>membersA.myID = "mallory"\<close>), and Bob
  reads \<^verbatim>\<open>members\<close> after that.
\<close>

definition mutated :: heap where
  "mutated = projr (set_prop (snd readA) 18 ''myID'' (Str ''mallory''))"

definition readB_mutated :: "val \<times> heap" where
  "readB_mutated = proxy_get mutated (clients stateB) viewB ''members''"




text \<open>
  Carol subscribes and reads \<^verbatim>\<open>members\<close> on her view; then her authorizer calls
  back, and she reads again.
\<close>

definition viewC :: proxy where
  "viewC = fst (projr (subscribe 2 ''room-1'' stateB))"

definition stateC :: state where
  "stateC = snd (projr (subscribe 2 ''room-1'' stateB))"

definition readC :: "val \<times> heap" where
  "readC = proxy_get (heap stateC) (clients stateC) viewC ''members''"

definition stateC_resolved :: state where
  "stateC_resolved = run_pending (stateC\<lparr>heap := snd readC\<rparr>)"

definition readC_resolved :: "val \<times> heap" where
  "readC_resolved =
     proxy_get (heap stateC_resolved) (clients stateC_resolved) viewC ''members''"







text \<open>The first lookup of \<^verbatim>\<open>"room-1"\<close> in the registry, as each variant does it.\<close>

definition first_lookup :: "error + val \<times> heap" where
  "first_lookup = channel (MockPusherInstance loaded) (heap loaded) ''room-1''"

definition first_lookup_v0 :: "error + proxy \<times> heap \<times> nat" where
  "first_lookup_v0 =
     channel_v0 (MockPusherInstance loaded) (heap loaded) (proxies_made loaded) ''room-1'' 0"

text \<open>The same client looks \<^verbatim>\<open>"room-1"\<close> up again.\<close>

definition second_lookup_v0 :: "error + proxy \<times> heap \<times> nat" where
  "second_lookup_v0 =
     channel_v0 (MockPusherInstance loaded) (fst (snd (projr first_lookup_v0)))
       (snd (snd (projr first_lookup_v0))) ''room-1'' 0"

text \<open>
  Between two lookups of \<^verbatim>\<open>"room-1"\<close>: another name is looked up, Alice reads
  \<^verbatim>\<open>members\<close>, Bob assigns a property of the channel through his view, and
  \<^verbatim>\<open>"constructor"\<close> is looked up.
\<close>

definition between :: "action list" where
  "between =
     [Lookup ''room-2'', Read viewA ''members'', Assign viewB ''topic'' (Str ''chess''),
      Lookup ''constructor'']"

definition after_between :: heap where
  "after_between =
     projr (run (MockPusherInstance loaded) (clients stateB) between (snd (projr first_lookup)))"

text \<open>
  create-client.test.js: \<^verbatim>\<open>const client = createClient("my-id"); const channel =
  client.subscribe("my-channel");\<close>, run on the earlier variant, which is the one whose
  proxy answers \<^verbatim>\<open>channel.myID\<close>.
\<close>

definition test_view :: proxy where
  "test_view =
     fst (projr (subscribe_v0 0 ''my-channel'' (snd (createClient (Str ''my-id'') loaded))))"

definition test_state :: state where
  "test_state =
     snd (projr (subscribe_v0 0 ''my-channel'' (snd (createClient (Str ''my-id'') loaded))))"


section \<open>Reading and writing the heap\<close>

lemma Inr_collapse: "\<not> isl x \<Longrightarrow> fst (projr x) = v \<Longrightarrow> x = Inr (v, snd (projr x))"
  by (cases x) auto

lemma Inr_projr: "\<not> isl x \<Longrightarrow> x = Inr (projr x)"
  by (cases x) auto

lemma Inr_pair: "\<not> isl x \<Longrightarrow> x = Inr (fst (projr x), snd (projr x))"
  by (cases x) auto

lemma pair_collapse: "fst x = v \<Longrightarrow> x = (v, snd x)"
  by (cases x) auto

lemma find_prop_own:
  "a < length h \<Longrightarrow> props (h ! a) k = Some p \<Longrightarrow> find_prop h a k = Some p"
  by (subst find_prop.simps) simp

text \<open>
  A read of \<open>k\<close> that starts at an address sees, of the objects up to that address, their
  prototype links and their own \<open>k\<close>, and nothing else.
\<close>

lemma find_prop_cong:
  "a < length h \<Longrightarrow> length h \<le> length h' \<Longrightarrow>
   \<forall>b\<le>a. proto (h' ! b) = proto (h ! b) \<and> props (h' ! b) k = props (h ! b) k \<Longrightarrow>
   find_prop h' a k = find_prop h a k"
proof (induction h a k rule: find_prop.induct)
  case (1 h a k)
  show ?case
  proof (cases "props (h ! a) k")
    case (Some p)
    with 1 show ?thesis by (simp add: find_prop_own)
  next
    case None
    note own = None
    show ?thesis
    proof (cases "proto (h ! a)")
      case None
      with own 1 show ?thesis
        by (subst find_prop.simps, subst (2) find_prop.simps) simp
    next
      case (Some b)
      show ?thesis
      proof (cases "b < a")
        case True
        with 1 own Some have "find_prop h' b k = find_prop h b k" by simp
        with 1 own Some True show ?thesis
          by (subst find_prop.simps, subst (2) find_prop.simps) simp
      next
        case False
        with 1 own Some show ?thesis
          by (subst find_prop.simps, subst (2) find_prop.simps) simp
      qed
    qed
  qed
qed

lemma get_prop_cong:
  assumes a: "a < length h" and l: "length h \<le> length h'"
    and e: "\<forall>b\<le>a. proto (h' ! b) = proto (h ! b) \<and> props (h' ! b) k = props (h ! b) k"
  shows "get_prop h' a k = get_prop h a k"
proof -
  from find_prop_cong [OF a l e] have "find_prop h' a k = find_prop h a k" .
  moreover from e have "proto (h' ! a) = proto (h ! a)" by simp
  ultimately show ?thesis using a l
    by (simp add: get_prop_def split: option.splits property.splits)
qed

text \<open>Objects above an address do not matter to a read that starts at it.\<close>

lemma get_prop_frame:
  "a < length h \<Longrightarrow> length h \<le> length h' \<Longrightarrow> \<forall>b\<le>a. h' ! b = h ! b \<Longrightarrow>
   get_prop h' a k = get_prop h a k"
  by (rule get_prop_cong) simp_all

lemma set_proto_Inr:
  "set_proto h a v = Inr h' \<Longrightarrow> h' = h \<or> (\<exists>pr. h' = h[a := (h ! a)\<lparr>proto := pr\<rparr>])"
  by (cases v) (auto simp: set_proto_def split: if_splits)


lemma set_prop_cases:
  assumes "set_prop h a k v = Inr h'"
  shows "h' = h \<or> h' = h[a := put_own (h ! a) k v] \<or>
         (\<exists>pr. h' = h[a := (h ! a)\<lparr>proto := pr\<rparr>])"
proof (cases "find_prop h a k")
  case None
  with assms show ?thesis by (auto simp: set_prop_def split: if_splits)
next
  case (Some p)
  with assms show ?thesis
    by (cases p) (auto simp: set_prop_def split: if_splits dest: set_proto_Inr)
qed

lemma set_prop_length: "set_prop h a k v = Inr h' \<Longrightarrow> length h' = length h"
  by (drule set_prop_cases) auto

lemma set_prop_other: "set_prop h a k v = Inr h' \<Longrightarrow> b \<noteq> a \<Longrightarrow> h' ! b = h ! b"
  by (drule set_prop_cases) auto

lemma set_prop_assignable:
  assumes "a < length h" and "assignable h a k"
  shows "set_prop h a k v = Inr (h[a := put_own (h ! a) k v])"
proof (cases "find_prop h a k")
  case None
  with assms show ?thesis by (simp add: set_prop_def)
next
  case (Some p)
  with assms show ?thesis by (cases p) (simp_all add: set_prop_def assignable_def)
qed

lemma get_prop_put_own:
  "a < length h \<Longrightarrow> get_prop (h[a := put_own (h ! a) k v]) a k = v"
  by (simp add: get_prop_def find_prop_own put_own_def)


text \<open>
  An assignment of an object that was created after \<open>a\<close>, when it does not throw: the
  next read returns the object, and nothing of \<open>a\<close> but its own \<open>k\<close> has changed.
\<close>

lemma set_prop_newer:
  assumes a: "a < length h" and b: "a < b" and s: "set_prop h a k (Ref b) = Inr h'"
  shows "get_prop h' a k = Ref b"
    and "proto (h' ! a) = proto (h ! a)"
    and "\<And>j. j \<noteq> k \<Longrightarrow> props (h' ! a) j = props (h ! a) j"
proof -
  have "get_prop h' a k = Ref b \<and> proto (h' ! a) = proto (h ! a) \<and>
        (\<forall>j. j \<noteq> k \<longrightarrow> props (h' ! a) j = props (h ! a) j)"
  proof (cases "assignable h a k")
    case True
    with a s have "h' = h[a := put_own (h ! a) k (Ref b)]" by (simp add: set_prop_assignable)
    with a show ?thesis by (simp add: get_prop_put_own) (simp add: put_own_def)
  next
    case False
    then have f: "find_prop h a k = Some ProtoAccessor \<or> (\<exists>w. find_prop h a k = Some (ReadOnly w))"
      by (auto simp: assignable_def split: option.splits property.splits)
    with s have acc: "find_prop h a k = Some ProtoAccessor" by (auto simp: set_prop_def)
    with s b have "h' = h" and "proto (h ! a) = Some b"
      by (auto simp: set_prop_def set_proto_def split: if_splits)
    with acc a show ?thesis by (simp add: get_prop_def)
  qed
  then show "get_prop h' a k = Ref b" and "proto (h' ! a) = proto (h ! a)"
    and "\<And>j. j \<noteq> k \<Longrightarrow> props (h' ! a) j = props (h ! a) j" by simp_all
qed

lemma new_MockChannel_result:
  assumes "new_MockChannel h n = Inr (ch, h')"
  shows "ch = Ref (length h)" and "length h' = length h + 2"
    and "\<And>b. b < length h \<Longrightarrow> h' ! b = h ! b"
proof -
  let ?h0 = "h @ [\<lparr>proto = Some MockChannel_prototype, props = Map.empty\<rparr>]"
  from assms obtain h1 where s1: "set_prop ?h0 (length h) ''name'' (Str n) = Inr h1"
    by (auto simp: new_MockChannel_def Let_def split: sum.splits)
  let ?h2 = "h1 @ [\<lparr>proto = Some Object_prototype, props = Map.empty\<rparr>]"
  from assms s1 have s2: "set_prop ?h2 (length h) ''members'' (Ref (length h1)) = Inr h'"
    and c: "ch = Ref (length h)"
    by (auto simp: new_MockChannel_def new_object_def Let_def split: sum.splits)
  from c show "ch = Ref (length h)" .
  from s1 have l1: "length h1 = length h + 1" by (simp add: set_prop_length)
  with s2 show "length h' = length h + 2" by (simp add: set_prop_length)
  fix b assume b: "b < length h"
  then have "h' ! b = ?h2 ! b" using s2 by (simp add: set_prop_other)
  also have "\<dots> = h1 ! b" using b l1 by (simp add: nth_append)
  also have "\<dots> = ?h0 ! b" using b s1 by (simp add: set_prop_other)
  also have "\<dots> = h ! b" using b by (simp add: nth_append)
  finally show "h' ! b = h ! b" .
qed

section \<open>The registry\<close>

text \<open>What a lookup returns, when it returns.\<close>

lemma channel_result:
  assumes reg: "channels this < length h" and r: "channel this h n = Inr (v, h1)"
  shows "get_prop h1 (channels this) n = v" and "truthy v"
    and "truthy (get_prop h (channels this) n) \<longrightarrow> v = get_prop h (channels this) n \<and> h1 = h"
    and "\<not> truthy (get_prop h (channels this) n) \<longrightarrow>
           v = Ref (length h) \<and> length h1 = length h + 2 \<and>
           (\<forall>b<length h. b \<noteq> channels this \<longrightarrow> h1 ! b = h ! b)"
proof -
  let ?c = "channels this"
  have "get_prop h1 ?c n = v \<and> truthy v \<and>
        (truthy (get_prop h ?c n) \<longrightarrow> v = get_prop h ?c n \<and> h1 = h) \<and>
        (\<not> truthy (get_prop h ?c n) \<longrightarrow>
           v = Ref (length h) \<and> length h1 = length h + 2 \<and>
           (\<forall>b<length h. b \<noteq> ?c \<longrightarrow> h1 ! b = h ! b))"
  proof (cases "truthy (get_prop h ?c n)")
    case True
    with r show ?thesis by (auto simp add: channel_def)
  next
    case False
    with r obtain ch h0 where
      new: "new_MockChannel h n = Inr (ch, h0)" and
      st: "set_prop h0 ?c n ch = Inr h1" and
      v: "v = get_prop h1 ?c n"
      by (auto simp: channel_def split: sum.splits)
    note nw = new_MockChannel_result [OF new]
    from reg nw(2) have c0: "?c < length h0" by simp
    from st nw(1) have st': "set_prop h0 ?c n (Ref (length h)) = Inr h1" by simp
    from set_prop_newer(1) [OF c0 reg st'] have g: "get_prop h1 ?c n = Ref (length h)" .
    with v have vv: "v = Ref (length h)" by simp
    from st nw(2) have l1: "length h1 = length h + 2" by (simp add: set_prop_length)
    have "\<forall>b<length h. b \<noteq> ?c \<longrightarrow> h1 ! b = h ! b"
    proof (intro allI impI)
      fix b assume b: "b < length h" and "b \<noteq> ?c"
      with st have "h1 ! b = h0 ! b" by (simp add: set_prop_other)
      with nw(3) [OF b] show "h1 ! b = h ! b" by simp
    qed
    with False g vv l1 show ?thesis by simp
  qed
  then show "get_prop h1 (channels this) n = v" and "truthy v"
    and "truthy (get_prop h (channels this) n) \<longrightarrow> v = get_prop h (channels this) n \<and> h1 = h"
    and "\<not> truthy (get_prop h (channels this) n) \<longrightarrow>
           v = Ref (length h) \<and> length h1 = length h + 2 \<and>
           (\<forall>b<length h. b \<noteq> channels this \<longrightarrow> h1 ! b = h ! b)"
    by blast+
qed

lemma channel_found:
  "truthy (get_prop h (channels this) n) \<Longrightarrow>
   channel this h n = Inr (get_prop h (channels this) n, h)"
  by (simp add: channel_def)

lemma channel_again:
  assumes "channels this < length h" and r: "channel this h n = Inr (v, h1)"
  shows "channel this h1 n = Inr (v, h1)"
  using channel_result(1,2) [OF assms] channel_found [of h1 this n] by simp

text \<open>A lookup of any name leaves what the registry holds under a name that it has.\<close>

lemma channel_keeps:
  assumes reg: "channels this < length h"
    and inv: "truthy (get_prop h (channels this) n)"
    and r: "channel this h n' = Inr (v', h')"
  shows "get_prop h' (channels this) n = get_prop h (channels this) n"
    and "length h \<le> length h'"
proof -
  let ?c = "channels this"
  have "get_prop h' ?c n = get_prop h ?c n \<and> length h \<le> length h'"
  proof (cases "truthy (get_prop h ?c n')")
    case True
    with r show ?thesis by (auto simp add: channel_def)
  next
    case False
    with inv have ne: "n \<noteq> n'" by auto
    from False r obtain ch h0 where
      new: "new_MockChannel h n' = Inr (ch, h0)" and
      st: "set_prop h0 ?c n' ch = Inr h'"
      by (auto simp: channel_def split: sum.splits)
    note nw = new_MockChannel_result [OF new]
    from reg nw(2) have c0: "?c < length h0" by simp
    from st nw(1) have st': "set_prop h0 ?c n' (Ref (length h)) = Inr h'" by simp
    note sn = set_prop_newer [OF c0 reg st']
    from st have l: "length h' = length h0" by (rule set_prop_length)
    have "\<forall>b\<le>?c. proto (h' ! b) = proto (h0 ! b) \<and> props (h' ! b) n = props (h0 ! b) n"
    proof (intro allI impI)
      fix b assume b: "b \<le> ?c"
      show "proto (h' ! b) = proto (h0 ! b) \<and> props (h' ! b) n = props (h0 ! b) n"
      proof (cases "b = ?c")
        case True
        with sn(2) sn(3) [OF ne] show ?thesis by simp
      next
        case False
        with st have "h' ! b = h0 ! b" by (simp add: set_prop_other)
        then show ?thesis by simp
      qed
    qed
    with c0 l have "get_prop h' ?c n = get_prop h0 ?c n" by (intro get_prop_cong) simp_all
    moreover from reg nw(2,3) have "get_prop h0 ?c n = get_prop h ?c n"
      by (intro get_prop_frame) simp_all
    ultimately show ?thesis using l nw(2) by simp
  qed
  then show "get_prop h' (channels this) n = get_prop h (channels this) n"
    and "length h \<le> length h'" by simp_all
qed

lemma proxy_get_heap: "\<exists>ext. snd (proxy_get h cs p key) = h @ ext"
  by (auto simp: proxy_get_def split: handler.splits)

text \<open>
  So do the reads of views, and the assignments through views of objects that were
  created after the registry's \<^verbatim>\<open>channels\<close>.
\<close>

lemma run_keeps:
  assumes "assigns_above (channels this) acts"
    and "run this cs acts h = Inr h2"
    and "channels this < length h"
    and "truthy (get_prop h (channels this) n)"
  shows "get_prop h2 (channels this) n = get_prop h (channels this) n"
  using assms
proof (induction acts arbitrary: h)
  case Nil
  then show ?case by simp
next
  case (Cons a acts)
  let ?c = "channels this"
  from Cons.prems(1) have rest: "assigns_above ?c acts" by (simp add: assigns_above_def)
  show ?case
  proof (cases a)
    case (Lookup n')
    with Cons.prems(2) obtain v' h' where
      r: "channel this h n' = Inr (v', h')" and rn: "run this cs acts h' = Inr h2"
      by (auto split: sum.splits)
    note k = channel_keeps [OF Cons.prems(3,4) r]
    from k Cons.prems(3,4) have "?c < length h'" and "truthy (get_prop h' ?c n)" by simp_all
    from Cons.IH [OF rest rn this] k(1) show ?thesis by simp
  next
    case (Read p key)
    with Cons.prems(2) have rn: "run this cs acts (snd (proxy_get h cs p key)) = Inr h2" by simp
    obtain ext where e: "snd (proxy_get h cs p key) = h @ ext" using proxy_get_heap by blast
    from Cons.prems(3) have g: "get_prop (h @ ext) ?c n = get_prop h ?c n"
      by (intro get_prop_frame) (simp_all add: nth_append)
    with Cons.prems(3,4) e have "?c < length (snd (proxy_get h cs p key))"
      and "truthy (get_prop (snd (proxy_get h cs p key)) ?c n)" by simp_all
    from Cons.IH [OF rest rn this] g e show ?thesis by simp
  next
    case (Assign p key v)
    with Cons.prems(1) have above: "?c < target p" by (simp add: assigns_above_def)
    from Assign Cons.prems(2) obtain h' where
      st: "set_prop h (target p) key v = Inr h'" and rn: "run this cs acts h' = Inr h2"
      by (auto simp: proxy_set_def split: sum.splits)
    from st have l: "length h' = length h" by (rule set_prop_length)
    from st above have "\<forall>b\<le>?c. h' ! b = h ! b" by (simp add: set_prop_other)
    with Cons.prems(3) l have g: "get_prop h' ?c n = get_prop h ?c n"
      by (intro get_prop_frame) simp_all
    with Cons.prems(3,4) l have "?c < length h'" and "truthy (get_prop h' ?c n)" by simp_all
    from Cons.IH [OF rest rn this] g show ?thesis by simp
  qed
qed

lemma channel_v0_channel:
  "channel_v0 this h made n c =
     (case channel this h n of
        Inl e \<Rightarrow> Inl e
      | Inr (v, h1) \<Rightarrow>
         (case proxyMockChannel_myID v c made of
            Inl e \<Rightarrow> Inl e
          | Inr (p, made1) \<Rightarrow> Inr (p, h1, made1)))"
  by (simp add: channel_v0_def channel_def split: sum.splits prod.splits)

lemma new_Proxy_Inr:
  "new_Proxy v hdl made = Inr (p, made1) \<Longrightarrow>
   v = Ref (target p) \<and> handler p = hdl \<and> ident p = made \<and> made1 = Suc made"
  by (cases v) (auto simp: new_Proxy_def)

text \<open>
  C1, as amended. A lookup \<^verbatim>\<open>channel(name)\<close> of mock-instance.js returns what the
  registry then holds under the name: what it held already, with nothing changed, or else
  a new object, stored under the name, with no other object that was there changed. A
  second lookup returns the identical value and changes nothing, at once and also after
  any lookups of any names, reads of views and assignments through views of channels: every
  subscriber of the name is handed the one object. The \<^verbatim>\<open>channel(name, client)\<close> of
  the earlier variant finds or creates the channel in the same way and returns a new
  proxy at every call: two calls never return the identical object, and the two proxies
  have the identical channel as their target.
\<close>

theorem registry_idempotence:
  assumes reg: "channels this < length h" and r: "channel this h n = Inr (v, h1)"
  shows "get_prop h1 (channels this) n = v \<and> truthy v \<and>
         (truthy (get_prop h (channels this) n) \<longrightarrow>
            v = get_prop h (channels this) n \<and> h1 = h) \<and>
         (\<not> truthy (get_prop h (channels this) n) \<longrightarrow>
            v = Ref (length h) \<and> length h1 = length h + 2 \<and>
            (\<forall>b<length h. b \<noteq> channels this \<longrightarrow> h1 ! b = h ! b)) \<and>
         channel this h1 n = Inr (v, h1) \<and>
         (assigns_above (channels this) acts \<and> run this cs acts h1 = Inr h2 \<longrightarrow>
            channel this h2 n = Inr (v, h2)) \<and>
         (channel_v0 this h made n c = Inr (p, h3, made1) \<longrightarrow>
            h3 = h1 \<and> v = Ref (target p) \<and> ident p = made \<and>
            (\<exists>q. channel_v0 this h1 made1 n c' = Inr (q, h1, Suc made1) \<and>
               target q = target p \<and> ident q \<noteq> ident p))"
proof -
  let ?c = "channels this"
  note res = channel_result [OF reg r]
  note again = channel_again [OF reg r]
  from res(3,4) have l: "length h \<le> length h1" by (cases "truthy (get_prop h ?c n)") simp_all
  with reg have reg1: "?c < length h1" by simp
  have later: "assigns_above ?c acts \<and> run this cs acts h1 = Inr h2 \<longrightarrow>
      channel this h2 n = Inr (v, h2)"
  proof
    assume a: "assigns_above ?c acts \<and> run this cs acts h1 = Inr h2"
    from res(1,2) have t1: "truthy (get_prop h1 ?c n)" by simp
    from a have "get_prop h2 ?c n = get_prop h1 ?c n"
      using run_keeps [OF _ _ reg1 t1] by blast
    with res(1,2) show "channel this h2 n = Inr (v, h2)" by (simp add: channel_found)
  qed
  have v0: "channel_v0 this h made n c = Inr (p, h3, made1) \<longrightarrow>
            h3 = h1 \<and> v = Ref (target p) \<and> ident p = made \<and>
            (\<exists>q. channel_v0 this h1 made1 n c' = Inr (q, h1, Suc made1) \<and>
               target q = target p \<and> ident q \<noteq> ident p)"
  proof
    assume "channel_v0 this h made n c = Inr (p, h3, made1)"
    with r have h3: "h3 = h1" and px: "proxyMockChannel_myID v c made = Inr (p, made1)"
      by (auto simp: channel_v0_channel split: sum.splits)
    from px have w: "v = Ref (target p)" and i: "ident p = made" and m: "made1 = Suc made"
      by (auto simp: proxyMockChannel_myID_def dest: new_Proxy_Inr)
    from again w i m
    have "\<exists>q. channel_v0 this h1 made1 n c' = Inr (q, h1, Suc made1) \<and>
               target q = target p \<and> ident q \<noteq> ident p"
      by (simp add: channel_v0_channel proxyMockChannel_myID_def new_Proxy_def)
    with h3 w i show "h3 = h1 \<and> v = Ref (target p) \<and> ident p = made \<and>
            (\<exists>q. channel_v0 this h1 made1 n c' = Inr (q, h1, Suc made1) \<and>
               target q = target p \<and> ident q \<noteq> ident p)" by simp
  qed
  from res again later v0 show ?thesis by blast
qed

theorem registry_idempotence_witness:
  "channels (MockPusherInstance loaded) < length (heap loaded) \<and>
   \<not> truthy (get_prop (heap loaded) (channels (MockPusherInstance loaded)) ''room-1'') \<and>
   first_lookup = Inr (Ref 16, snd (projr first_lookup)) \<and>
   length (snd (projr first_lookup)) = length (heap loaded) + 2 \<and>
   get_prop (snd (projr first_lookup)) (channels (MockPusherInstance loaded)) ''room-1'' = Ref 16 \<and>
   proto (snd (projr first_lookup) ! 16) = Some MockChannel_prototype \<and>
   get_prop (snd (projr first_lookup)) 16 ''name'' = Str ''room-1'' \<and>
   get_prop (snd (projr first_lookup)) 16 ''members'' = Ref 17 \<and>
   channel (MockPusherInstance loaded) (snd (projr first_lookup)) ''room-1'' =
     Inr (Ref 16, snd (projr first_lookup)) \<and>
   assigns_above (channels (MockPusherInstance loaded)) between \<and>
   run (MockPusherInstance loaded) (clients stateB) between (snd (projr first_lookup)) =
     Inr after_between \<and>
   channel (MockPusherInstance loaded) after_between ''room-1'' = Inr (Ref 16, after_between) \<and>
   get_prop after_between 16 ''topic'' = Str ''chess'' \<and>
   first_lookup_v0 =
     Inr (fst (projr first_lookup_v0), snd (projr first_lookup), snd (snd (projr first_lookup_v0))) \<and>
   target (fst (projr first_lookup_v0)) = 16 \<and>
   (\<exists>q. channel_v0 (MockPusherInstance loaded) (snd (projr first_lookup))
          (snd (snd (projr first_lookup_v0))) ''room-1'' 1 =
          Inr (q, snd (projr first_lookup), Suc (snd (snd (projr first_lookup_v0)))) \<and>
        target q = target (fst (projr first_lookup_v0)) \<and>
        ident q \<noteq> ident (fst (projr first_lookup_v0)))"
proof -
  let ?i = "MockPusherInstance loaded" and ?h1 = "snd (projr first_lookup)"
  have a: "channels ?i < length (heap loaded)" by code_simp
  have f: "\<not> truthy (get_prop (heap loaded) (channels ?i) ''room-1'')" by code_simp
  have "\<not> isl first_lookup" and "fst (projr first_lookup) = Ref 16" by code_simp+
  then have b: "first_lookup = Inr (Ref 16, ?h1)" by (rule Inr_collapse)
  then have b': "channel ?i (heap loaded) ''room-1'' = Inr (Ref 16, ?h1)"
    by (simp only: first_lookup_def [symmetric])
  have "\<not> isl first_lookup_v0" by code_simp
  then have "first_lookup_v0 = Inr (fst (projr first_lookup_v0), snd (projr first_lookup_v0))"
    by (rule Inr_pair)
  then have c: "first_lookup_v0 = Inr (fst (projr first_lookup_v0),
      fst (snd (projr first_lookup_v0)), snd (snd (projr first_lookup_v0)))"
    by simp
  then have c': "channel_v0 ?i (heap loaded) (proxies_made loaded) ''room-1'' 0 =
      Inr (fst (projr first_lookup_v0),
           fst (snd (projr first_lookup_v0)), snd (snd (projr first_lookup_v0)))"
    by (simp only: first_lookup_v0_def [symmetric])
  have d: "assigns_above (channels ?i) between" by code_simp
  have "\<not> isl (run ?i (clients stateB) between ?h1)" by code_simp
  then have "run ?i (clients stateB) between ?h1 =
      Inr (projr (run ?i (clients stateB) between ?h1))" by (rule Inr_projr)
  then have e: "run ?i (clients stateB) between ?h1 = Inr after_between"
    by (simp only: after_between_def [symmetric])
  note t = registry_idempotence [OF a b', where acts = between and cs = "clients stateB"
      and ?h2.0 = after_between and made = "proxies_made loaded" and c = 0
      and p = "fst (projr first_lookup_v0)" and ?h3.0 = "fst (snd (projr first_lookup_v0))"
      and ?made1.0 = "snd (snd (projr first_lookup_v0))" and c' = 1]
  from t c' have h3: "fst (snd (projr first_lookup_v0)) = ?h1" by blast
  from t c' have g: "target (fst (projr first_lookup_v0)) = 16" by simp
  have m: "proto (?h1 ! 16) = Some MockChannel_prototype"
    "get_prop ?h1 16 ''name'' = Str ''room-1''" "get_prop ?h1 16 ''members'' = Ref 17"
    "get_prop after_between 16 ''topic'' = Str ''chess''"
    by code_simp+
  from a f b c [unfolded h3] d e g m t c' show ?thesis by blast
qed

text \<open>
  C1 as it is stated fails on the \<^verbatim>\<open>channel(name, client)\<close> of the earlier variant:
  two lookups of \<^verbatim>\<open>"room-1"\<close> for one client return two proxies, the first and the
  second that were made, over the one channel.
\<close>

theorem registry_idempotence_counterexample:
  "\<not> isl first_lookup_v0 \<and> \<not> isl second_lookup_v0 \<and>
   target (fst (projr first_lookup_v0)) = 16 \<and>
   target (fst (projr second_lookup_v0)) = 16 \<and>
   ident (fst (projr first_lookup_v0)) = 0 \<and>
   ident (fst (projr second_lookup_v0)) = 1"
  by (intro conjI; code_simp)

section \<open>The views\<close>

lemma own_entries_merge:
  "own_entries
     (h @ [\<lparr>proto = pr,
            props = (\<lambda>k. map_option (\<lambda>v. Data v True) (m k))(j \<mapsto> Data x True)\<rparr>])
     (length h) = m(j \<mapsto> x)"
  by (rule ext) (simp add: own_entries_def split: option.splits)

lemma own_entries_frame:
  "a < length h \<Longrightarrow> length h \<le> length h' \<Longrightarrow> h' ! a = h ! a \<Longrightarrow>
   own_entries h' a = own_entries h a"
  by (simp add: own_entries_def)

lemma spread_frame:
  "length h \<le> length h' \<Longrightarrow> \<forall>b<length h. h' ! b = h ! b \<Longrightarrow>
   \<forall>m. x = Ref m \<longrightarrow> m < length h \<Longrightarrow> spread h' x = spread h x"
  by (cases x) (simp_all add: spread_def own_entries_def)

lemma merged_myID:
  "get_prop (h @ [\<lparr>proto = pr, props = m(''myID'' \<mapsto> Data x e)\<rparr>]) (length h) ''myID'' = x"
  by (simp add: get_prop_def find_prop_own)

text \<open>What a read of \<^verbatim>\<open>members\<close> on a view of the second handler returns.\<close>

lemma members_read:
  assumes "handler p = Handler_members c"
    and "proxy_get h cs p ''members'' = (v, h1)"
  shows "v = Ref (length h)"
    and "length h1 = Suc (length h)"
    and "\<forall>b<length h. h1 ! b = h ! b"
    and "own_entries h1 (length h) =
           (spread h (get_prop h (target p) ''members''))(''myID'' \<mapsto> client_id cs c)"
    and "get_prop h1 (length h) ''myID'' = client_id cs c"
    and "props (h1 ! length h) ''myID'' = Some (Data (client_id cs c) True)"
proof -
  from assms have v: "v = Ref (length h)" and
    h1: "h1 = h @ [\<lparr>proto = Some Object_prototype,
                    props = (\<lambda>k. map_option (\<lambda>v. Data v True)
                                (spread h (get_prop h (target p) ''members'') k))
                            (''myID'' \<mapsto> Data (client_id cs c) True)\<rparr>]"
    by (simp_all add: proxy_get_def)
  from v show "v = Ref (length h)" .
  from h1 show "length h1 = Suc (length h)" by simp
  from h1 show "\<forall>b<length h. h1 ! b = h ! b" by (simp add: nth_append)
  from h1 show "own_entries h1 (length h) =
           (spread h (get_prop h (target p) ''members''))(''myID'' \<mapsto> client_id cs c)"
    by (simp only: own_entries_merge)
  from h1 show "get_prop h1 (length h) ''myID'' = client_id cs c"
    by (simp only: merged_myID)
  from h1 show "props (h1 ! length h) ''myID'' = Some (Data (client_id cs c) True)"
    by simp
qed

lemma passthrough_read:
  "(handler p = Handler_myID c \<and> key \<noteq> ''myID'') \<or>
   (handler p = Handler_members c \<and> key \<noteq> ''members'') \<Longrightarrow>
   proxy_get h cs p key = (get_prop h (target p) key, h)"
  by (auto simp: proxy_get_def)

text \<open>
  C3. On a view that the second \<^verbatim>\<open>proxyMockChannel\<close> built, every read of
  \<^verbatim>\<open>members\<close> returns a new object (its address was not in the heap, and no object
  that was there changes) whose own entries are those that the spread takes from
  \<^verbatim>\<open>channel.members\<close>, with the entry \<^verbatim>\<open>myID\<close> added or overridden by what
  \<^verbatim>\<open>client.id\<close> is when the read is made.
\<close>

theorem members_merge:
  assumes "handler p = Handler_members c"
    and "proxy_get h cs p ''members'' = (v, h1)"
  shows "v = Ref (length h) \<and> length h1 = Suc (length h) \<and> (\<forall>b<length h. h1 ! b = h ! b) \<and>
         own_entries h1 (length h) =
           (spread h (get_prop h (target p) ''members''))(''myID'' \<mapsto> client_id cs c) \<and>
         (\<forall>m. get_prop h (target p) ''members'' = Ref m \<longrightarrow>
            own_entries h1 (length h) = (own_entries h m)(''myID'' \<mapsto> client_id cs c))"
proof -
  note r = members_read [OF assms]
  from r(4) have "\<forall>m. get_prop h (target p) ''members'' = Ref m \<longrightarrow>
            own_entries h1 (length h) = (own_entries h m)(''myID'' \<mapsto> client_id cs c)"
    by (simp add: spread_def)
  with r(1-4) show ?thesis by blast
qed

theorem members_merge_witness:
  "handler viewA = Handler_members 0 \<and>
   proxy_get (heap stateB) (clients stateB) viewA ''members'' = (fst readA, snd readA) \<and>
   fst readA = Ref (length (heap stateB)) \<and>
   length (snd readA) = Suc (length (heap stateB)) \<and>
   get_prop (heap stateB) (target viewA) ''members'' = Ref 17 \<and>
   client_id (clients stateB) 0 = Str ''alice'' \<and>
   own_entries (snd readA) (length (heap stateB)) =
     (own_entries (heap stateB) 17)(''myID'' \<mapsto> Str ''alice'')"
proof -
  have a: "handler viewA = Handler_members 0" by code_simp
  have b: "proxy_get (heap stateB) (clients stateB) viewA ''members'' = (fst readA, snd readA)"
    by (simp only: readA_def prod.collapse)
  have c: "get_prop (heap stateB) (target viewA) ''members'' = Ref 17" by code_simp
  have d: "client_id (clients stateB) 0 = Str ''alice''" by code_simp
  note r = members_merge [OF a b]
  from r c have e: "own_entries (snd readA) (length (heap stateB)) =
      (own_entries (heap stateB) 17)(''myID'' \<mapsto> client_id (clients stateB) 0)"
    by blast
  from r have f: "fst readA = Ref (length (heap stateB))"
    and g: "length (snd readA) = Suc (length (heap stateB))" by blast+
  from a b c d e [unfolded d] f g show ?thesis by blast
qed

text \<open>
  C5, as amended. On a view that the first \<^verbatim>\<open>proxyMockChannel\<close> built, a read of
  \<^verbatim>\<open>myID\<close> returns what \<^verbatim>\<open>client.id\<close> is at that moment and does not look at
  the channel. The second \<^verbatim>\<open>proxyMockChannel\<close> intercepts \<^verbatim>\<open>members\<close> only:
  on its views a read of \<^verbatim>\<open>myID\<close> is a read of the channel's own \<^verbatim>\<open>myID\<close>.
\<close>

theorem bare_myID:
  "(handler p = Handler_myID c \<longrightarrow> proxy_get h cs p ''myID'' = (client_id cs c, h)) \<and>
   (handler p = Handler_members c \<longrightarrow>
      proxy_get h cs p ''myID'' = (get_prop h (target p) ''myID'', h))"
  by (simp add: proxy_get_def)

theorem bare_myID_witness:
  "handler test_view = Handler_myID 0 \<and>
   proxy_get (heap test_state) (clients test_state) test_view ''myID'' =
     (client_id (clients test_state) 0, heap test_state) \<and>
   handler viewA = Handler_members 0 \<and>
   proxy_get (heap stateB) (clients stateB) viewA ''myID'' =
     (get_prop (heap stateB) (target viewA) ''myID'', heap stateB)"
proof -
  have a: "handler test_view = Handler_myID 0" by code_simp
  have b: "handler viewA = Handler_members 0" by code_simp
  from bare_myID [where p = test_view and c = 0 and h = "heap test_state"
      and cs = "clients test_state"]
    bare_myID [where p = viewA and c = 0 and h = "heap stateB" and cs = "clients stateB"] a b
  show ?thesis by blast
qed

text \<open>
  C5 as it is stated fails on the views of the second \<^verbatim>\<open>proxyMockChannel\<close>: Alice
  is \<^verbatim>\<open>"alice"\<close>, and \<^verbatim>\<open>viewA.myID\<close> is \<^verbatim>\<open>undefined\<close>.
\<close>

theorem bare_myID_counterexample:
  "handler viewA = Handler_members 0 \<and>
   client_id (clients stateB) 0 = Str ''alice'' \<and>
   fst (proxy_get (heap stateB) (clients stateB) viewA ''myID'') = Undefined"
  by (intro conjI; code_simp)

text \<open>
  C6. A read of any key that the handler of the view does not intercept (every key but
  \<^verbatim>\<open>myID\<close> for the first handler, every key but \<^verbatim>\<open>members\<close> for the second)
  returns what the same read on the channel returns and leaves the heap as it is; a
  property that is defined nowhere along the channel's prototype chain reads
  \<^verbatim>\<open>undefined\<close>. The read has no error result.
\<close>

theorem passthrough:
  assumes "(handler p = Handler_myID c \<and> key \<noteq> ''myID'') \<or>
           (handler p = Handler_members c \<and> key \<noteq> ''members'')"
  shows "proxy_get h cs p key = (get_prop h (target p) key, h) \<and>
         (find_prop h (target p) key = None \<longrightarrow> proxy_get h cs p key = (Undefined, h))"
  using passthrough_read [OF assms] by (simp add: get_prop_def)

theorem passthrough_witness:
  "handler viewA = Handler_members 0 \<and>
   find_prop (heap stateB) (target viewA) ''callbacks'' = None \<and>
   proxy_get (heap stateB) (clients stateB) viewA ''callbacks'' = (Undefined, heap stateB) \<and>
   handler test_view = Handler_myID 0 \<and>
   get_prop (heap test_state) (target test_view) ''name'' = Str ''my-channel'' \<and>
   proxy_get (heap test_state) (clients test_state) test_view ''name'' =
     (Str ''my-channel'', heap test_state)"
proof -
  have a: "handler viewA = Handler_members 0 \<and> ''callbacks'' \<noteq> ''members''" by code_simp
  have b: "find_prop (heap stateB) (target viewA) ''callbacks'' = None" by code_simp
  have c: "handler test_view = Handler_myID 0 \<and> ''name'' \<noteq> ''myID''" by code_simp
  have d: "get_prop (heap test_state) (target test_view) ''name'' = Str ''my-channel''"
    by code_simp
  from passthrough [where p = viewA and c = 0 and key = "''callbacks''" and h = "heap stateB"
      and cs = "clients stateB"] a b
  have e: "proxy_get (heap stateB) (clients stateB) viewA ''callbacks'' = (Undefined, heap stateB)"
    by blast
  from passthrough [where p = test_view and c = 0 and key = "''name''"
      and h = "heap test_state" and cs = "clients test_state"] c
  have "proxy_get (heap test_state) (clients test_state) test_view ''name'' =
      (get_prop (heap test_state) (target test_view) ''name'', heap test_state)"
    by blast
  with a b c d e show ?thesis by (simp only: simp_thms)
qed

text \<open>
  C7. The object that a read of \<^verbatim>\<open>members\<close> returns is not the channel's: the read
  changes no object that was in the heap, and an assignment to a property of the returned
  object changes none either. The channel's \<^verbatim>\<open>members\<close> and its entries are what
  they were, and a later read through any view of that channel merges those entries with
  the reader's own \<^verbatim>\<open>myID\<close>.
\<close>

theorem no_mutation_leakage:
  assumes t: "target p < length h"
    and mem: "\<forall>m. get_prop h (target p) ''members'' = Ref m \<longrightarrow> m < length h"
    and hp: "handler p = Handler_members c"
    and hq: "handler q = Handler_members c'" and tq: "target q = target p"
    and rd: "proxy_get h cs p ''members'' = (Ref a, h1)"
    and wr: "set_prop h1 a k x = Inr h2"
    and rd2: "proxy_get h2 cs q ''members'' = (Ref b, h3)"
  shows "(\<forall>i<length h. h1 ! i = h ! i) \<and> (\<forall>i<length h. h2 ! i = h ! i) \<and>
         get_prop h2 (target p) ''members'' = get_prop h (target p) ''members'' \<and>
         spread h2 (get_prop h2 (target p) ''members'') =
           spread h (get_prop h (target p) ''members'') \<and>
         own_entries h3 b =
           (spread h (get_prop h (target p) ''members''))(''myID'' \<mapsto> client_id cs c')"
proof -
  let ?t = "target p"
  from members_read [OF hp rd] have a: "a = length h" and l1: "length h1 = Suc (length h)"
    and f1: "\<forall>i<length h. h1 ! i = h ! i" by simp_all
  from wr have l2: "length h2 = length h1" by (rule set_prop_length)
  have f2: "\<forall>i<length h. h2 ! i = h ! i"
  proof (intro allI impI)
    fix i assume i: "i < length h"
    with a have "i \<noteq> a" by simp
    with wr have "h2 ! i = h1 ! i" by (rule set_prop_other)
    with f1 i show "h2 ! i = h ! i" by simp
  qed
  from t f2 have "\<forall>i\<le>?t. h2 ! i = h ! i" by simp
  with t l1 l2 have g: "get_prop h2 ?t ''members'' = get_prop h ?t ''members''"
    by (intro get_prop_frame) simp_all
  from l1 l2 f2 mem
  have "spread h2 (get_prop h ?t ''members'') = spread h (get_prop h ?t ''members'')"
    by (intro spread_frame) simp_all
  with g have s: "spread h2 (get_prop h2 ?t ''members'') = spread h (get_prop h ?t ''members'')"
    by simp
  from members_read(1,4) [OF hq rd2] s tq
  have "own_entries h3 b = (spread h (get_prop h ?t ''members''))(''myID'' \<mapsto> client_id cs c')"
    by simp
  with f1 f2 g s show ?thesis by blast
qed

theorem no_mutation_leakage_witness:
  "target viewA < length (heap stateB) \<and>
   get_prop (heap stateB) (target viewA) ''members'' = Ref 17 \<and>
   handler viewA = Handler_members 0 \<and> handler viewB = Handler_members 1 \<and>
   target viewB = target viewA \<and>
   proxy_get (heap stateB) (clients stateB) viewA ''members'' = (Ref 18, snd readA) \<and>
   set_prop (snd readA) 18 ''myID'' (Str ''mallory'') = Inr mutated \<and>
   get_prop mutated 18 ''myID'' = Str ''mallory'' \<and>
   proxy_get mutated (clients stateB) viewB ''members'' = (Ref 19, snd readB_mutated) \<and>
   mutated ! 16 = heap stateB ! 16 \<and> mutated ! 17 = heap stateB ! 17 \<and>
   get_prop mutated (target viewA) ''members'' = Ref 17 \<and>
   own_entries (snd readB_mutated) 19 =
     (spread (heap stateB) (Ref 17))(''myID'' \<mapsto> Str ''bob'')"
proof -
  have t: "target viewA < length (heap stateB)" by code_simp
  have m: "get_prop (heap stateB) (target viewA) ''members'' = Ref 17" by code_simp
  have l: "16 < length (heap stateB)" "17 < length (heap stateB)" by code_simp+
  with m have mem: "\<forall>m. get_prop (heap stateB) (target viewA) ''members'' = Ref m \<longrightarrow>
      m < length (heap stateB)" by simp
  have hp: "handler viewA = Handler_members 0" and hq: "handler viewB = Handler_members 1"
    and tq: "target viewB = target viewA" by code_simp+
  have "fst readA = Ref 18" by code_simp
  then have "readA = (Ref 18, snd readA)" by (rule pair_collapse)
  then have rd: "proxy_get (heap stateB) (clients stateB) viewA ''members'' = (Ref 18, snd readA)"
    by (simp only: readA_def [symmetric])
  have "\<not> isl (set_prop (snd readA) 18 ''myID'' (Str ''mallory''))" by code_simp
  then have "set_prop (snd readA) 18 ''myID'' (Str ''mallory'') =
      Inr (projr (set_prop (snd readA) 18 ''myID'' (Str ''mallory'')))"
    by (rule Inr_projr)
  then have wr: "set_prop (snd readA) 18 ''myID'' (Str ''mallory'') = Inr mutated"
    by (simp only: mutated_def [symmetric])
  have mm: "get_prop mutated 18 ''myID'' = Str ''mallory''" by code_simp
  have "fst readB_mutated = Ref 19" by code_simp
  then have "readB_mutated = (Ref 19, snd readB_mutated)" by (rule pair_collapse)
  then have rd2: "proxy_get mutated (clients stateB) viewB ''members'' = (Ref 19, snd readB_mutated)"
    by (simp only: readB_mutated_def [symmetric])
  have b: "client_id (clients stateB) 1 = Str ''bob''" by code_simp
  note r = no_mutation_leakage [OF t mem hp hq tq rd wr rd2, unfolded m b]
  from r l have "mutated ! 16 = heap stateB ! 16" "mutated ! 17 = heap stateB ! 17" by blast+
  with t m hp hq tq rd wr mm rd2 r show ?thesis by blast
qed

section \<open>Subscribing\<close>

lemma subscribe_Inr:
  assumes "subscribe c n s = Inr (p, s1)"
  shows "c < length (clients s)"
    and "channel (MockPusherInstance s) (heap s) n = Inr (Ref (target p), heap s1)"
    and "handler p = Handler_members c"
    and "MockPusherInstance s1 = MockPusherInstance s"
    and "clients s1 = clients (authorize c s)"
    and "pending s1 = pending (authorize c s)"
    and "ident p = proxies_made s" and "proxies_made s1 = Suc (proxies_made s)"
proof -
  from assms show c: "c < length (clients s)" by (simp add: subscribe_def split: if_splits)
  with assms obtain ch h1 made where
    ch: "channel (MockPusherInstance s) (heap s) n = Inr (ch, h1)" and
    p: "proxyMockChannel ch c (proxies_made s) = Inr (p, made)" and
    s1: "s1 = (authorize c s)\<lparr>heap := h1, proxies_made := made\<rparr>"
    by (auto simp: subscribe_def Let_def authorize_def split: sum.splits)
  from p have "ch = Ref (target p)" and hp: "handler p = Handler_members c"
    and ip: "ident p = proxies_made s" and m: "made = Suc (proxies_made s)"
    by (auto simp: proxyMockChannel_def dest: new_Proxy_Inr)
  with ch s1 show "channel (MockPusherInstance s) (heap s) n = Inr (Ref (target p), heap s1)"
    by simp
  from hp show "handler p = Handler_members c" .
  from s1 show "MockPusherInstance s1 = MockPusherInstance s" by (simp add: authorize_def)
  from s1 show "clients s1 = clients (authorize c s)" by simp
  from s1 show "pending s1 = pending (authorize c s)" by simp
  from ip show "ident p = proxies_made s" .
  from s1 m show "proxies_made s1 = Suc (proxies_made s)" by simp
qed

lemma authorize_sync1:
  "sync (config (clients s ! c)) = [v] \<Longrightarrow>
   clients (authorize c s) = (clients s)[c := (clients s ! c)\<lparr>id' := v\<rparr>]"
  by (simp add: authorize_def setID_def)

lemma authorize_sync0:
  "sync (config (clients s ! c)) = [] \<Longrightarrow> clients (authorize c s) = clients s"
  by (simp add: authorize_def)

lemma authorize_pending:
  "pending (authorize c s) = pending s @ map (Pair c) (deferred (config (clients s ! c)))"
  by (simp add: authorize_def)

text \<open>
  C2. Two clients subscribe to the same name, one after the other, and their identities
  differ when they read. The two views have the identical channel as their target; the
  object that a read of \<^verbatim>\<open>members\<close> returns to each holds that client's own identity
  under \<^verbatim>\<open>myID\<close>, so the two values differ; and the two objects agree on every other
  entry. The channel and its \<^verbatim>\<open>members\<close> object are objects of the heap.
\<close>

theorem identity_isolation:
  assumes reg: "channels (MockPusherInstance s) < length (heap s)"
    and A: "subscribe a n s = Inr (vA, s1)"
    and B: "subscribe b n s1 = Inr (vB, s2)"
    and ids: "client_id (clients s2) a \<noteq> client_id (clients s2) b"
    and t: "target vA < length (heap s2)"
    and mem: "\<forall>m. get_prop (heap s2) (target vA) ''members'' = Ref m \<longrightarrow> m < length (heap s2)"
    and rA: "proxy_get (heap s2) (clients s2) vA ''members'' = (mA, hA)"
    and rB: "proxy_get hA (clients s2) vB ''members'' = (mB, hB)"
  shows "target vA = target vB \<and>
         (\<exists>oA oB. mA = Ref oA \<and> mB = Ref oB \<and> oA \<noteq> oB \<and>
            get_prop hB oA ''myID'' = client_id (clients s2) a \<and>
            get_prop hB oB ''myID'' = client_id (clients s2) b \<and>
            get_prop hB oA ''myID'' \<noteq> get_prop hB oB ''myID'' \<and>
            (\<forall>k. k \<noteq> ''myID'' \<longrightarrow> own_entries hB oA k = own_entries hB oB k))"
proof -
  let ?i = "MockPusherInstance s" and ?h = "heap s2" and ?cs = "clients s2"
  let ?t = "target vA"
  note sA = subscribe_Inr [OF A] and sB = subscribe_Inr [OF B]
  from channel_again [OF reg sA(2)]
  have "channel ?i (heap s1) n = Inr (Ref ?t, heap s1)" .
  with sB(2) sA(4) have tt: "target vB = ?t" and hh: "heap s2 = heap s1" by simp_all
  note a = members_read [OF sA(3) rA] and b = members_read [OF sB(3) rB]
  let ?oA = "length ?h" and ?oB = "length hA"
  from a(2) have ne: "?oA \<noteq> ?oB" by simp
  from t a(2,3) have g: "get_prop hA ?t ''members'' = get_prop ?h ?t ''members''"
    by (intro get_prop_frame) simp_all
  from a(2,3) mem
  have sp: "spread hA (get_prop ?h ?t ''members'') = spread ?h (get_prop ?h ?t ''members'')"
    by (intro spread_frame) simp_all
  from a(2) b(2,3) have same: "hB ! ?oA = hA ! ?oA" by simp
  with a(2) b(2) have fA: "own_entries hB ?oA = own_entries hA ?oA"
    by (intro own_entries_frame) simp_all
  have eA: "own_entries hB ?oA =
      (spread ?h (get_prop ?h ?t ''members''))(''myID'' \<mapsto> client_id ?cs a)"
    using fA a(4) by simp
  have eB: "own_entries hB ?oB =
      (spread ?h (get_prop ?h ?t ''members''))(''myID'' \<mapsto> client_id ?cs b)"
    using b(4) g sp tt by simp
  from a(2) b(2,3) have "get_prop hB ?oA ''myID'' = get_prop hA ?oA ''myID''"
    by (intro get_prop_frame) simp_all
  with a(5) have pA: "get_prop hB ?oA ''myID'' = client_id ?cs a" by simp
  note pB = b(5)
  from a(1) b(1) ne pA pB ids eA eB
  have "\<exists>oA oB. mA = Ref oA \<and> mB = Ref oB \<and> oA \<noteq> oB \<and>
           get_prop hB oA ''myID'' = client_id (clients s2) a \<and>
           get_prop hB oB ''myID'' = client_id (clients s2) b \<and>
           get_prop hB oA ''myID'' \<noteq> get_prop hB oB ''myID'' \<and>
           (\<forall>k. k \<noteq> ''myID'' \<longrightarrow> own_entries hB oA k = own_entries hB oB k)"
    by (intro exI [of _ ?oA] exI [of _ ?oB]) simp
  with tt show ?thesis by simp
qed

theorem identity_isolation_witness:
  "subscribe 0 ''room-1'' three_clients = Inr (viewA, stateA) \<and>
   subscribe 1 ''room-1'' stateA = Inr (viewB, stateB) \<and>
   client_id (clients stateB) 0 = Str ''alice'' \<and>
   client_id (clients stateB) 1 = Str ''bob'' \<and>
   target viewA = target viewB \<and>
   (\<exists>oA oB. fst readA = Ref oA \<and> fst readB = Ref oB \<and> oA \<noteq> oB \<and>
      get_prop (snd readB) oA ''myID'' = Str ''alice'' \<and>
      get_prop (snd readB) oB ''myID'' = Str ''bob'')"
proof -
  have reg: "channels (MockPusherInstance three_clients) < length (heap three_clients)"
    by code_simp
  have "\<not> isl (subscribe 0 ''room-1'' three_clients)" by code_simp
  then have "subscribe 0 ''room-1'' three_clients =
      Inr (fst (projr (subscribe 0 ''room-1'' three_clients)),
           snd (projr (subscribe 0 ''room-1'' three_clients)))"
    by (rule Inr_pair)
  then have A: "subscribe 0 ''room-1'' three_clients = Inr (viewA, stateA)"
    by (simp only: viewA_def [symmetric] stateA_def [symmetric])
  have "\<not> isl (subscribe 1 ''room-1'' stateA)" by code_simp
  then have "subscribe 1 ''room-1'' stateA =
      Inr (fst (projr (subscribe 1 ''room-1'' stateA)),
           snd (projr (subscribe 1 ''room-1'' stateA)))"
    by (rule Inr_pair)
  then have B: "subscribe 1 ''room-1'' stateA = Inr (viewB, stateB)"
    by (simp only: viewB_def [symmetric] stateB_def [symmetric])
  have ia: "client_id (clients stateB) 0 = Str ''alice''"
    and ib: "client_id (clients stateB) 1 = Str ''bob''" by code_simp+
  then have ids: "client_id (clients stateB) 0 \<noteq> client_id (clients stateB) 1" by simp
  have t: "target viewA < length (heap stateB)" by code_simp
  have m: "get_prop (heap stateB) (target viewA) ''members'' = Ref 17" by code_simp
  have "17 < length (heap stateB)" by code_simp
  with m have mem: "\<forall>m. get_prop (heap stateB) (target viewA) ''members'' = Ref m \<longrightarrow>
      m < length (heap stateB)" by simp
  have rA: "proxy_get (heap stateB) (clients stateB) viewA ''members'' = (fst readA, snd readA)"
    by (simp only: readA_def prod.collapse)
  have rB: "proxy_get (snd readA) (clients stateB) viewB ''members'' = (fst readB, snd readB)"
    by (simp only: readB_def prod.collapse)
  note r = identity_isolation [OF reg A B ids t mem rA rB, unfolded ia ib]
  from A B ia ib r show ?thesis by blast
qed

text \<open>
  C4. A client that has no identity yet subscribes with an authorizer that calls back only
  later, while nothing else is pending. A read of \<^verbatim>\<open>members\<close> on the view it was
  handed returns an object whose \<^verbatim>\<open>myID\<close> is the own property \<^verbatim>\<open>undefined\<close>;
  once the callback has run, a read of \<^verbatim>\<open>members\<close> on the same view returns an
  object whose \<^verbatim>\<open>myID\<close> is the identity the authorizer resolved.
\<close>

theorem live_read:
  assumes cfg: "config (clients s ! c) = Authorizer [] [v] r"
    and fresh: "id' (clients s ! c) = Undefined"
    and idle: "pending s = []"
    and sub: "subscribe c n s = Inr (p, s1)"
    and r1: "proxy_get (heap s1) (clients s1) p ''members'' = (m1, h1)"
    and r2: "proxy_get (heap (run_pending (s1\<lparr>heap := h1\<rparr>)))
               (clients (run_pending (s1\<lparr>heap := h1\<rparr>))) p ''members'' = (m2, h2)"
  shows "(\<exists>a. m1 = Ref a \<and> get_prop h1 a ''myID'' = Undefined \<and>
            props (h1 ! a) ''myID'' = Some (Data Undefined True)) \<and>
         (\<exists>a. m2 = Ref a \<and> get_prop h2 a ''myID'' = v)"
proof -
  note sb = subscribe_Inr [OF sub]
  from cfg sb(5) have cs1: "clients s1 = clients s" by (simp add: authorize_sync0)
  from cfg sb(6) idle have p1: "pending s1 = [(c, v)]" by (simp add: authorize_pending)
  from cs1 sb(1) fresh have id1: "client_id (clients s1) c = Undefined"
    by (simp add: client_id_def)
  note a = members_read [OF sb(3) r1]
  from a(1,5,6) id1
  have one: "\<exists>a. m1 = Ref a \<and> get_prop h1 a ''myID'' = Undefined \<and>
            props (h1 ! a) ''myID'' = Some (Data Undefined True)"
    by simp
  let ?s2 = "run_pending (s1\<lparr>heap := h1\<rparr>)"
  from p1 cs1 have cs2: "clients ?s2 = (clients s)[c := (clients s ! c)\<lparr>id' := v\<rparr>]"
    by (simp add: run_pending_def setID_def)
  from cs2 sb(1) have id2: "client_id (clients ?s2) c = v" by (simp add: client_id_def)
  note b = members_read [OF sb(3) r2]
  from b(1,5) id2 have "\<exists>a. m2 = Ref a \<and> get_prop h2 a ''myID'' = v" by simp
  with one show ?thesis by blast
qed

theorem live_read_witness:
  "config (clients stateB ! 2) = Authorizer [] [Str ''carol''] Undefined \<and>
   id' (clients stateB ! 2) = Undefined \<and> pending stateB = [] \<and>
   subscribe 2 ''room-1'' stateB = Inr (viewC, stateC) \<and>
   (\<exists>a. fst readC = Ref a \<and> get_prop (snd readC) a ''myID'' = Undefined \<and>
      props (snd readC ! a) ''myID'' = Some (Data Undefined True)) \<and>
   (\<exists>a. fst readC_resolved = Ref a \<and> get_prop (snd readC_resolved) a ''myID'' = Str ''carol'')"
proof -
  have cfg: "config (clients stateB ! 2) = Authorizer [] [Str ''carol''] Undefined"
    and fresh: "id' (clients stateB ! 2) = Undefined"
    and idle: "pending stateB = []" by code_simp+
  have "\<not> isl (subscribe 2 ''room-1'' stateB)" by code_simp
  then have "subscribe 2 ''room-1'' stateB =
      Inr (fst (projr (subscribe 2 ''room-1'' stateB)),
           snd (projr (subscribe 2 ''room-1'' stateB)))"
    by (rule Inr_pair)
  then have sub: "subscribe 2 ''room-1'' stateB = Inr (viewC, stateC)"
    by (simp only: viewC_def [symmetric] stateC_def [symmetric])
  have r1: "proxy_get (heap stateC) (clients stateC) viewC ''members'' = (fst readC, snd readC)"
    by (simp only: readC_def prod.collapse)
  have r2: "proxy_get (heap (run_pending (stateC\<lparr>heap := snd readC\<rparr>)))
       (clients (run_pending (stateC\<lparr>heap := snd readC\<rparr>))) viewC ''members'' =
     (fst readC_resolved, snd readC_resolved)"
    by (simp only: readC_resolved_def stateC_resolved_def prod.collapse)
  note r = live_read [OF cfg fresh idle sub r1 r2]
  from cfg fresh idle sub r show ?thesis by blast
qed










text \<open>
  C9. The registry does not create a channel for every name. On the registry as the
  module exports it, \<^verbatim>\<open>channel("constructor")\<close> finds the property that
  \<^verbatim>\<open>this.channels\<close> inherits from Object.prototype, creates nothing, stores nothing
  and returns the function \<^verbatim>\<open>Object\<close>, whose prototype is Function.prototype and
  not that of \<^verbatim>\<open>MockChannel\<close>.
\<close>

theorem channel_constructor:
  "channel (MockPusherInstance loaded) (heap loaded) ''constructor'' =
     Inr (Ref 4, heap loaded) \<and>
   props (heap loaded ! channels (MockPusherInstance loaded)) ''constructor'' = None \<and>
   props (heap loaded ! Object_prototype) ''constructor'' = Some (Data (Ref 4) False) \<and>
   proto (heap loaded ! 4) = Some 1 \<and>
   proto (heap loaded ! 4) \<noteq> Some MockChannel_prototype"
proof -
  have "get_prop (heap loaded) (channels (MockPusherInstance loaded)) ''constructor'' = Ref 4"
    by code_simp
  then have "channel (MockPusherInstance loaded) (heap loaded) ''constructor'' =
      Inr (Ref 4, heap loaded)"
    by (simp add: channel_def)
  moreover
  have "props (heap loaded ! channels (MockPusherInstance loaded)) ''constructor'' = None"
    "props (heap loaded ! Object_prototype) ''constructor'' = Some (Data (Ref 4) False)"
    "proto (heap loaded ! 4) = Some 1"
    "proto (heap loaded ! 4) \<noteq> Some MockChannel_prototype"
    by code_simp+
  ultimately show ?thesis by blast
qed




section \<open>The earlier client\<close>

lemma callbacks_config:
  "callbacks h this rs = Inr this1 \<Longrightarrow> config this1 = config this"
proof (induction rs arbitrary: this)
  case Nil
  then show ?case by simp
next
  case (Cons r rs)
  then show ?case by (auto simp: callback_def split: sum.splits)
qed

text \<open>
  Whatever the callback stored, the \<^verbatim>\<open>subscribe\<close> of mock-client.js leaves in
  \<^verbatim>\<open>this.id\<close> what the authorizer returned.
\<close>

lemma subscribe_v0_id:
  assumes "subscribe_v0 c n s = Inr (p, s1)"
  shows "id' (clients s1 ! c) = returned (config (clients s ! c))"
proof -
  from assms have c: "c < length (clients s)" by (simp add: subscribe_v0_def split: if_splits)
  with assms obtain this1 where
    cb: "callbacks (heap s) (clients s ! c) (sync (config (clients s ! c))) = Inr this1" and
    cs: "clients s1 = (clients s)[c := this1\<lparr>id' := returned (config this1)\<rparr>]"
    by (auto simp: subscribe_v0_def Let_def split: sum.splits)
  from cb have "config this1 = config (clients s ! c)" by (rule callbacks_config)
  with cs c show ?thesis by simp
qed

text \<open>
  create-client.test.js expects \<^verbatim>\<open>channel.myID\<close> to be \<^verbatim>\<open>"my-id"\<close>. The
  authorizer of create-client.js returns \<^verbatim>\<open>undefined\<close>, so that is what the client's
  \<^verbatim>\<open>id\<close> is once \<^verbatim>\<open>subscribe\<close> has returned, and what the view reads.
\<close>

lemma create_client_test:
  "\<not> isl (subscribe_v0 0 ''my-channel'' (snd (createClient (Str ''my-id'') loaded))) \<and>
   handler test_view = Handler_myID 0 \<and>
   id' (clients test_state ! 0) = Undefined \<and>
   fst (proxy_get (heap test_state) (clients test_state) test_view ''myID'') = Undefined"
  by (intro conjI; code_simp)

end
